theory Spec2Isabelle
  imports Main
begin

section \<open>JavaScript values\<close>

text \<open>
  The values the client handles: payloads, amounts, idempotence keys, credentials and
  parsed response bodies. An object is an association list in key order. Numbers are the
  integers (timeouts in milliseconds and the like); \<open>NaN\<close> and fractions are outside the
  model. An argument the caller omits is \<open>JUndefined\<close>, as in JavaScript.
\<close>

datatype jsval =
    JUndefined
  | JNull
  | JBool bool
  | JNum int
  | JStr string
  | JArr "jsval list"
  | JObj "(string \<times> jsval) list"

text \<open>JavaScript truthiness: \<open>undefined\<close>, \<open>null\<close>, \<open>false\<close>, \<open>0\<close> and \<open>''\<close> are falsy.\<close>

fun truthy :: "jsval \<Rightarrow> bool" where
  "truthy JUndefined = False"
| "truthy JNull = False"
| "truthy (JBool b) = b"
| "truthy (JNum n) = (n \<noteq> 0)"
| "truthy (JStr s) = (s \<noteq> [])"
| "truthy (JArr xs) = True"
| "truthy (JObj kvs) = True"

text \<open>The operator \<open>a || b\<close>: the left operand when it is truthy, the right one otherwise.\<close>

definition js_or :: "jsval \<Rightarrow> jsval \<Rightarrow> jsval" where
  "js_or a b = (if truthy a then a else b)"

text \<open>
  The same operator where the left operand is an optional string property
  (\<open>None\<close> when the property is absent, which reads as \<open>undefined\<close>) and the right one
  a string: the empty string is the only falsy string.
\<close>

definition str_or :: "string option \<Rightarrow> string \<Rightarrow> string" where
  "str_or a b = (case a of None \<Rightarrow> b | Some s \<Rightarrow> if s = [] then b else s)"

section \<open>The client and its constructor (lib/index.js, lines 7 to 33)\<close>

text \<open>
  The configuration object \<open>{shopId, secretKey, base_host?, base_path?, debug?, timeout?}\<close>.
  The properties that the constructor only tests and stores are arbitrary values
  (\<open>JUndefined\<close> when absent). \<open>base_host\<close> and \<open>base_path\<close> are the operands of the
  string concatenation that builds \<open>this.root\<close>; they are strings, as documented, or absent.
  The fields carry the prefix \<open>opt_\<close> where the client has a field of the same name.
\<close>

record options =
  opt_shopId :: jsval
  opt_secretKey :: jsval
  base_host :: "string option"
  base_path :: "string option"
  opt_debug :: jsval
  opt_timeout :: jsval

text \<open>
  The first argument of the constructor: a configuration object, the positional shop id
  (a string, or \<open>undefined\<close> when omitted), or \<open>null\<close>.
\<close>

datatype ctor_arg =
    ArgObject options
  | ArgNull
  | ArgUndefined
  | ArgString string

text \<open>The operator \<open>typeof\<close>; \<open>typeof null\<close> is \<open>'object'\<close>.\<close>

fun typeof :: "ctor_arg \<Rightarrow> string" where
  "typeof (ArgObject ob) = ''object''"
| "typeof ArgNull = ''object''"
| "typeof ArgUndefined = ''undefined''"
| "typeof (ArgString s) = ''string''"

text \<open>
  The first argument as a value, where the constructor stores it as the positional
  shop id (an object or \<open>null\<close> never gets there).
\<close>

fun ctor_arg_value :: "ctor_arg \<Rightarrow> jsval" where
  "ctor_arg_value (ArgString s) = JStr s"
| "ctor_arg_value ArgNull = JNull"
| "ctor_arg_value a = JUndefined"

text \<open>The fields \<open>this.shopId\<close>, \<open>this.secretKey\<close>, \<open>this.root\<close>, \<open>this.debug\<close>, \<open>this.timeout\<close>.\<close>

record client =
  shopId :: jsval
  secretKey :: jsval
  root :: string
  debug :: jsval
  timeout :: jsval

text \<open>
  What a JavaScript call can throw or reject with. \<open>TypeError\<close> is the runtime's error
  for reading a property of \<open>null\<close>. \<open>TransportError\<close> (with its cause) and \<open>APIError\<close>
  (with the HTTP status and the parsed error body) are the two error kinds of the
  transport.
\<close>

datatype error =
    TypeError
  | TransportError string
  | APIError nat jsval

definition DEFAULT_BASE_HOST :: string where
  "DEFAULT_BASE_HOST = ''https://api.yookassa.ru''"

definition DEFAULT_BASE_PATH :: string where
  "DEFAULT_BASE_PATH = ''/v3/''"

definition DEFAULT_DEBUG :: jsval where
  "DEFAULT_DEBUG = JBool False"

text \<open>
  \<open>new YandexCheckout(shopId, secretKey)\<close>; the two parameters are written
  \<open>shopIdArg\<close> and \<open>secretKeyArg\<close> here, the names \<open>shopId\<close> and \<open>secretKey\<close>
  being the client's fields. \<open>DEFAULT_TIMEOUT\<close> is
  \<open>require('http').createServer().timeout\<close>, the platform's default HTTP server
  timeout: a value of the Node.js runtime, taken as a parameter.

  When \<open>typeof shopId === 'object'\<close> the options are the first argument itself, and
  reading \<open>options.shopId\<close> of \<open>null\<close> throws; otherwise the options are
  \<open>{shopId, secretKey}\<close>, with every other property absent.
\<close>

definition YandexCheckout :: "jsval \<Rightarrow> ctor_arg \<Rightarrow> jsval \<Rightarrow> error + client" where
  "YandexCheckout DEFAULT_TIMEOUT shopIdArg secretKeyArg =
     (let options =
        (if typeof shopIdArg = ''object''
         then (case shopIdArg of ArgObject ob \<Rightarrow> Some ob | _ \<Rightarrow> None)
         else Some \<lparr>opt_shopId = ctor_arg_value shopIdArg, opt_secretKey = secretKeyArg,
                    base_host = None, base_path = None,
                    opt_debug = JUndefined, opt_timeout = JUndefined\<rparr>)
      in case options of
           None \<Rightarrow> Inl TypeError
         | Some ob \<Rightarrow>
             Inr \<lparr>shopId = opt_shopId ob,
                  secretKey = opt_secretKey ob,
                  root = str_or (base_host ob) DEFAULT_BASE_HOST
                       @ str_or (base_path ob) DEFAULT_BASE_PATH,
                  debug = js_or (opt_debug ob) DEFAULT_DEBUG,
                  timeout = js_or (opt_timeout ob) DEFAULT_TIMEOUT\<rparr>)"

text \<open>The exported factory \<open>init\<close> (line 410).\<close>

definition init :: "jsval \<Rightarrow> ctor_arg \<Rightarrow> jsval \<Rightarrow> error + client" where
  "init DEFAULT_TIMEOUT shopIdArg secretKeyArg =
     YandexCheckout DEFAULT_TIMEOUT shopIdArg secretKeyArg"

section \<open>Promises and the transport\<close>

text \<open>
  Modelled from the spec: the request that the transport utility of \<open>lib/utils.js\<close>
  hands to the HTTP library (section 4.1): method, full URL, the basic authentication
  pair, the headers, the body (serialised to JSON by the library) and the connection
  timeout.
\<close>

record http_request =
  req_method :: string
  req_url :: string
  req_user :: jsval
  req_pass :: jsval
  req_headers :: "(string \<times> jsval) list"
  req_body :: jsval
  req_timeout :: jsval

text \<open>
  Modelled from the spec: what the HTTP library and the JSON parser (external
  collaborators, section 6) make of one request: a network failure or a timeout, a
  body that is not JSON, or a response with its status and its parsed body.
\<close>

datatype http_outcome =
    NetworkFailure string
  | MalformedJson string
  | Response nat jsval

text \<open>
  A call that returns a promise, run to its end: the client instance as the call
  leaves it, the HTTP requests it issued, in order, and how the promise settled
  (\<open>Inl\<close>: rejected with the error, \<open>Inr\<close>: resolved with the value).
\<close>

record 'a promise =
  this_after :: client
  sent :: "http_request list"
  settled :: "error + 'a"

text \<open>
  \<open>promise.then(f)\<close> with one callback, as every public method uses it: a resolved
  value is mapped by \<open>f\<close>, a rejection passes through as it is.
\<close>

definition promise_then :: "'a promise \<Rightarrow> ('a \<Rightarrow> 'b) \<Rightarrow> 'b promise" where
  "promise_then p f =
     \<lparr>this_after = this_after p, sent = sent p,
      settled = (case settled p of Inl e \<Rightarrow> Inl e | Inr v \<Rightarrow> Inr (f v))\<rparr>"

text \<open>
  The transport utility \<open>utils.request.call(this, method, path, data, idempotenceKey)\<close>
  as the facade sees it: \<open>lib/utils.js\<close> is not among the sources, so the facade's
  methods take it as a parameter.
\<close>

type_synonym transport =
  "client \<Rightarrow> string \<Rightarrow> string \<Rightarrow> jsval \<Rightarrow> jsval \<Rightarrow> jsval promise"

text \<open>
  Modelled from the spec: the request that the transport utility of \<open>lib/utils.js\<close>
  builds (section 4.1 and the wire protocol of section 6). The URL is the configured
  base host and base path (the client's \<open>root\<close>) followed by the resource path; basic
  authentication has the shop id as user and the secret key as password; the content
  type is JSON; the header \<open>Idempotence-Key\<close> carries the caller's key when one is
  supplied and is absent otherwise; the body is the body argument; the configured
  timeout applies to the connection.
\<close>

definition build_request ::
  "client \<Rightarrow> string \<Rightarrow> string \<Rightarrow> jsval \<Rightarrow> jsval \<Rightarrow> http_request" where
  "build_request this method path data idempotenceKey =
     \<lparr>req_method = method,
      req_url = root this @ path,
      req_user = shopId this,
      req_pass = secretKey this,
      req_headers =
        (''Content-Type'', JStr ''application/json'')
        # (if idempotenceKey = JUndefined then []
           else [(''Idempotence-Key'', idempotenceKey)]),
      req_body = data,
      req_timeout = timeout this\<rparr>"

text \<open>
  Modelled from the spec: how the transport utility of \<open>lib/utils.js\<close> settles
  (section 4.1). A status from 200 to 299 resolves to the parsed body; any other
  status fails with an API error carrying the status and the parsed error body;
  malformed JSON and a network failure fail with a transport error carrying the cause.
\<close>

fun settle :: "http_outcome \<Rightarrow> error + jsval" where
  "settle (NetworkFailure cause) = Inl (TransportError cause)"
| "settle (MalformedJson cause) = Inl (TransportError cause)"
| "settle (Response status body) =
     (if 200 \<le> status \<and> status < 300 then Inr body else Inl (APIError status body))"

text \<open>
  Modelled from the spec: the transport utility \<open>request\<close> of \<open>lib/utils.js\<close>
  (section 4.1). One attempt per call, no retry; the client is not changed. \<open>http\<close>
  stands for the HTTP library, the network and the remote API together.
\<close>

definition request :: "(http_request \<Rightarrow> http_outcome) \<Rightarrow> transport" where
  "request http this method path data idempotenceKey =
     (let req = build_request this method path data idempotenceKey
      in \<lparr>this_after = this, sent = [req], settled = settle (http req)\<rparr>)"

section \<open>Result models\<close>

text \<open>
  Modelled from the spec: the classes \<open>Payment\<close> of \<open>lib/models/payment.js\<close> and
  \<open>Refund\<close> of \<open>lib/models/refund.js\<close> (sections 2 and 3). \<open>new Payment(client, data)\<close>
  is a value object that stores the parsed response; it is never changed afterwards.
\<close>

datatype model =
    Payment client jsval
  | Refund client jsval

text \<open>
  Modelled from the spec: the field \<open>k\<close> of a parsed response (\<open>undefined\<close> when the
  response has none, or is not an object).
\<close>

fun response_field :: "jsval \<Rightarrow> string \<Rightarrow> jsval" where
  "response_field (JObj kvs) k = (case map_of kvs k of None \<Rightarrow> JUndefined | Some v \<Rightarrow> v)"
| "response_field v k = JUndefined"

text \<open>
  Modelled from the spec: reading a field of a result model (section 3: every field
  of a model is a direct, lossless projection of the corresponding response field).
\<close>

fun model_field :: "model \<Rightarrow> string \<Rightarrow> jsval" where
  "model_field (Payment c resp) k = response_field resp k"
| "model_field (Refund c resp) k = response_field resp k"

section \<open>The facade (lib/index.js, lines 35 to 403)\<close>

text \<open>
  Each operation is a pair of methods. The internal one, \<open>_createPayment\<close> and so on
  in the source, is written \<open>raw_createPayment\<close> here (a name cannot start with an
  underscore); \<open>tr\<close> is \<open>utils.request\<close>. Identifiers are strings, as documented;
  a payload, an amount and an idempotence key are any value.
\<close>

definition raw_createPayment :: "transport \<Rightarrow> client \<Rightarrow> jsval \<Rightarrow> jsval \<Rightarrow> jsval promise" where
  "raw_createPayment tr this payload idempotenceKey =
     tr this ''POST'' ''payments'' payload idempotenceKey"

definition createPayment :: "transport \<Rightarrow> client \<Rightarrow> jsval \<Rightarrow> jsval \<Rightarrow> model promise" where
  "createPayment tr this payload idempotenceKey =
     promise_then (raw_createPayment tr this payload idempotenceKey) (\<lambda>resp. Payment this resp)"

definition raw_getPaymentInfo :: "transport \<Rightarrow> client \<Rightarrow> string \<Rightarrow> jsval \<Rightarrow> jsval promise" where
  "raw_getPaymentInfo tr this paymentId idempotenceKey =
     tr this ''GET'' (''payments/'' @ paymentId) (JObj []) idempotenceKey"

definition getPayment :: "transport \<Rightarrow> client \<Rightarrow> string \<Rightarrow> jsval \<Rightarrow> model promise" where
  "getPayment tr this paymentId idempotenceKey =
     promise_then (raw_getPaymentInfo tr this paymentId idempotenceKey) (\<lambda>resp. Payment this resp)"

definition raw_capturePayment ::
  "transport \<Rightarrow> client \<Rightarrow> string \<Rightarrow> jsval \<Rightarrow> jsval \<Rightarrow> jsval promise" where
  "raw_capturePayment tr this paymentId amount idempotenceKey =
     tr this ''POST'' (''payments/'' @ paymentId @ ''/capture'')
       (JObj [(''amount'', amount)])
       idempotenceKey"

definition capturePayment ::
  "transport \<Rightarrow> client \<Rightarrow> string \<Rightarrow> jsval \<Rightarrow> jsval \<Rightarrow> model promise" where
  "capturePayment tr this paymentId amount idempotenceKey =
     promise_then (raw_capturePayment tr this paymentId amount idempotenceKey)
       (\<lambda>resp. Payment this resp)"

definition raw_cancelPayment :: "transport \<Rightarrow> client \<Rightarrow> string \<Rightarrow> jsval \<Rightarrow> jsval promise" where
  "raw_cancelPayment tr this paymentId idempotenceKey =
     tr this ''POST'' (''payments/'' @ paymentId @ ''/cancel'') (JObj [])
       idempotenceKey"

definition cancelPayment :: "transport \<Rightarrow> client \<Rightarrow> string \<Rightarrow> jsval \<Rightarrow> model promise" where
  "cancelPayment tr this paymentId idempotenceKey =
     promise_then (raw_cancelPayment tr this paymentId idempotenceKey) (\<lambda>resp. Payment this resp)"

definition raw_createRefund ::
  "transport \<Rightarrow> client \<Rightarrow> string \<Rightarrow> jsval \<Rightarrow> jsval \<Rightarrow> jsval promise" where
  "raw_createRefund tr this paymentId amount idempotenceKey =
     tr this ''POST'' ''refunds''
       (JObj [(''amount'', amount), (''payment_id'', JStr paymentId)])
       idempotenceKey"

definition createRefund ::
  "transport \<Rightarrow> client \<Rightarrow> string \<Rightarrow> jsval \<Rightarrow> jsval \<Rightarrow> model promise" where
  "createRefund tr this paymentId amount idempotenceKey =
     promise_then (raw_createRefund tr this paymentId amount idempotenceKey)
       (\<lambda>resp. Refund this resp)"

definition raw_getRefundInfo :: "transport \<Rightarrow> client \<Rightarrow> string \<Rightarrow> jsval \<Rightarrow> jsval promise" where
  "raw_getRefundInfo tr this refundId idempotenceKey =
     tr this ''GET'' (''refunds/'' @ refundId) (JObj []) idempotenceKey"

definition getRefund :: "transport \<Rightarrow> client \<Rightarrow> string \<Rightarrow> jsval \<Rightarrow> model promise" where
  "getRefund tr this refundId idempotenceKey =
     promise_then (raw_getRefundInfo tr this refundId idempotenceKey) (\<lambda>resp. Refund this resp)"

section \<open>Auxiliary facts\<close>

lemmas ctor_defs = YandexCheckout_def str_or_def js_or_def DEFAULT_BASE_HOST_def
  DEFAULT_BASE_PATH_def DEFAULT_DEBUG_def

lemmas raw_defs = raw_createPayment_def raw_getPaymentInfo_def raw_capturePayment_def
  raw_cancelPayment_def raw_createRefund_def raw_getRefundInfo_def

lemmas public_defs = createPayment_def getPayment_def capturePayment_def
  cancelPayment_def createRefund_def getRefund_def

lemma sent_promise_then: "sent (promise_then p f) = sent p"
  by (simp add: promise_then_def)

lemma this_after_promise_then: "this_after (promise_then p f) = this_after p"
  by (simp add: promise_then_def)

lemma settled_promise_then:
  "settled (promise_then p f) = (case settled p of Inl e \<Rightarrow> Inl e | Inr v \<Rightarrow> Inr (f v))"
  by (simp add: promise_then_def)

lemma rejected_promise_then: "settled p = Inl e \<Longrightarrow> settled (promise_then p f) = Inl e"
  by (simp add: settled_promise_then)

lemma promise_then_rejected_only:
  "settled (promise_then p f) = Inl e \<Longrightarrow> settled p = Inl e"
  by (cases "settled p") (simp_all add: settled_promise_then)

lemma sent_request: "sent (request http c m p b k) = [build_request c m p b k]"
  by (simp add: request_def Let_def)

lemma this_after_request: "this_after (request http c m p b k) = c"
  by (simp add: request_def Let_def)

lemma settled_request: "settled (request http c m p b k) = settle (http (build_request c m p b k))"
  by (simp add: request_def Let_def)

lemma idempotence_header:
  "map_of (req_headers (build_request c m p b k)) ''Idempotence-Key''
     = (if k = JUndefined then None else Some k)"
  by (simp add: build_request_def)

lemma build_request_fields:
  "req_method (build_request c m p b k) = m"
  "req_url (build_request c m p b k) = root c @ p"
  "req_body (build_request c m p b k) = b"
  by (simp_all add: build_request_def)

section \<open>The constructor\<close>

text \<open>
  C6. The constructor accepts a configuration object, or two positional strings. It
  keeps the shop id and the secret key as given. The base URL \<open>root\<close> is a base host
  followed by a base path: the supplied one when it is a non-empty string,
  \<open>https://api.yookassa.ru\<close> and \<open>/v3/\<close> when omitted. A supplied \<open>debug\<close> or
  \<open>timeout\<close> that is truthy is kept as given; an omitted \<open>debug\<close> gives \<open>false\<close> and
  an omitted \<open>timeout\<close> gives the platform's default HTTP server timeout.
\<close>

theorem constructor_accepts_and_defaults:
  "(\<exists>c h p.
      YandexCheckout T (ArgObject ob) sk = Inr c
      \<and> shopId c = opt_shopId ob \<and> secretKey c = opt_secretKey ob
      \<and> root c = h @ p
      \<and> (base_host ob = None \<longrightarrow> h = ''https://api.yookassa.ru'')
      \<and> (base_path ob = None \<longrightarrow> p = ''/v3/'')
      \<and> (\<forall>x. base_host ob = Some x \<and> x \<noteq> [] \<longrightarrow> h = x)
      \<and> (\<forall>y. base_path ob = Some y \<and> y \<noteq> [] \<longrightarrow> p = y)
      \<and> (opt_debug ob = JUndefined \<longrightarrow> debug c = JBool False)
      \<and> (opt_timeout ob = JUndefined \<longrightarrow> timeout c = T)
      \<and> (truthy (opt_debug ob) \<longrightarrow> debug c = opt_debug ob)
      \<and> (truthy (opt_timeout ob) \<longrightarrow> timeout c = opt_timeout ob))
   \<and> YandexCheckout T (ArgString s) (JStr k) =
       Inr \<lparr>shopId = JStr s, secretKey = JStr k, root = ''https://api.yookassa.ru/v3/'',
            debug = JBool False, timeout = T\<rparr>"
proof (intro conjI)
  let ?h = "str_or (base_host ob) DEFAULT_BASE_HOST"
  let ?p = "str_or (base_path ob) DEFAULT_BASE_PATH"
  let ?c = "\<lparr>shopId = opt_shopId ob, secretKey = opt_secretKey ob, root = ?h @ ?p,
             debug = js_or (opt_debug ob) DEFAULT_DEBUG, timeout = js_or (opt_timeout ob) T\<rparr>"
  have built: "YandexCheckout T (ArgObject ob) sk = Inr ?c"
    by (simp add: YandexCheckout_def)
  have host: "(base_host ob = None \<longrightarrow> ?h = ''https://api.yookassa.ru'')
      \<and> (\<forall>x. base_host ob = Some x \<and> x \<noteq> [] \<longrightarrow> ?h = x)"
    by (simp add: str_or_def DEFAULT_BASE_HOST_def)
  have path: "(base_path ob = None \<longrightarrow> ?p = ''/v3/'')
      \<and> (\<forall>y. base_path ob = Some y \<and> y \<noteq> [] \<longrightarrow> ?p = y)"
    by (simp add: str_or_def DEFAULT_BASE_PATH_def)
  have omitted: "(opt_debug ob = JUndefined \<longrightarrow> debug ?c = JBool False)
      \<and> (opt_timeout ob = JUndefined \<longrightarrow> timeout ?c = T)"
    by (simp add: js_or_def DEFAULT_DEBUG_def)
  have supplied: "(truthy (opt_debug ob) \<longrightarrow> debug ?c = opt_debug ob)
      \<and> (truthy (opt_timeout ob) \<longrightarrow> timeout ?c = opt_timeout ob)"
    by (simp add: js_or_def)
  show "\<exists>c h p.
      YandexCheckout T (ArgObject ob) sk = Inr c
      \<and> shopId c = opt_shopId ob \<and> secretKey c = opt_secretKey ob
      \<and> root c = h @ p
      \<and> (base_host ob = None \<longrightarrow> h = ''https://api.yookassa.ru'')
      \<and> (base_path ob = None \<longrightarrow> p = ''/v3/'')
      \<and> (\<forall>x. base_host ob = Some x \<and> x \<noteq> [] \<longrightarrow> h = x)
      \<and> (\<forall>y. base_path ob = Some y \<and> y \<noteq> [] \<longrightarrow> p = y)
      \<and> (opt_debug ob = JUndefined \<longrightarrow> debug c = JBool False)
      \<and> (opt_timeout ob = JUndefined \<longrightarrow> timeout c = T)
      \<and> (truthy (opt_debug ob) \<longrightarrow> debug c = opt_debug ob)
      \<and> (truthy (opt_timeout ob) \<longrightarrow> timeout c = opt_timeout ob)"
    using built host path omitted supplied
    by (intro exI [of _ ?c] exI [of _ ?h] exI [of _ ?p]) simp
next
  show "YandexCheckout T (ArgString s) (JStr k) =
       Inr \<lparr>shopId = JStr s, secretKey = JStr k, root = ''https://api.yookassa.ru/v3/'',
            debug = JBool False, timeout = T\<rparr>"
    by (simp add: ctor_defs)
qed

text \<open>
  A configuration object that gives only a base host, one that gives every optional
  field, and the two positional strings, on a platform whose default timeout is
  120000 ms.
\<close>

theorem constructor_accepts_and_defaults_witness:
  "YandexCheckout (JNum 120000)
     (ArgObject \<lparr>opt_shopId = JStr ''shop'', opt_secretKey = JStr ''key'',
                 base_host = Some ''http://localhost'', base_path = None,
                 opt_debug = JUndefined, opt_timeout = JUndefined\<rparr>) JUndefined
     = Inr \<lparr>shopId = JStr ''shop'', secretKey = JStr ''key'', root = ''http://localhost/v3/'',
            debug = JBool False, timeout = JNum 120000\<rparr>
   \<and> YandexCheckout (JNum 120000) (ArgString ''shop'') (JStr ''key'')
     = Inr \<lparr>shopId = JStr ''shop'', secretKey = JStr ''key'',
            root = ''https://api.yookassa.ru/v3/'', debug = JBool False,
            timeout = JNum 120000\<rparr>
   \<and> YandexCheckout (JNum 120000)
     (ArgObject \<lparr>opt_shopId = JStr ''shop'', opt_secretKey = JStr ''key'',
                 base_host = Some ''http://localhost'', base_path = Some ''/api/'',
                 opt_debug = JBool True, opt_timeout = JNum 5000\<rparr>) JUndefined
     = Inr \<lparr>shopId = JStr ''shop'', secretKey = JStr ''key'', root = ''http://localhost/api/'',
            debug = JBool True, timeout = JNum 5000\<rparr>"
proof (intro conjI)
  show "YandexCheckout (JNum 120000)
     (ArgObject \<lparr>opt_shopId = JStr ''shop'', opt_secretKey = JStr ''key'',
                 base_host = Some ''http://localhost'', base_path = None,
                 opt_debug = JUndefined, opt_timeout = JUndefined\<rparr>) JUndefined
     = Inr \<lparr>shopId = JStr ''shop'', secretKey = JStr ''key'', root = ''http://localhost/v3/'',
            debug = JBool False, timeout = JNum 120000\<rparr>"
    using constructor_accepts_and_defaults
      [of "JNum 120000"
          "\<lparr>opt_shopId = JStr ''shop'', opt_secretKey = JStr ''key'',
            base_host = Some ''http://localhost'', base_path = None,
            opt_debug = JUndefined, opt_timeout = JUndefined\<rparr>"
          JUndefined "''shop''" "''key''"]
    by (simp add: ctor_defs)
  show "YandexCheckout (JNum 120000) (ArgString ''shop'') (JStr ''key'')
     = Inr \<lparr>shopId = JStr ''shop'', secretKey = JStr ''key'',
            root = ''https://api.yookassa.ru/v3/'', debug = JBool False,
            timeout = JNum 120000\<rparr>"
    using constructor_accepts_and_defaults [of "JNum 120000" _ _ "''shop''" "''key''"]
    by (simp add: ctor_defs)
  show "YandexCheckout (JNum 120000)
     (ArgObject \<lparr>opt_shopId = JStr ''shop'', opt_secretKey = JStr ''key'',
                 base_host = Some ''http://localhost'', base_path = Some ''/api/'',
                 opt_debug = JBool True, opt_timeout = JNum 5000\<rparr>) JUndefined
     = Inr \<lparr>shopId = JStr ''shop'', secretKey = JStr ''key'', root = ''http://localhost/api/'',
            debug = JBool True, timeout = JNum 5000\<rparr>"
    using constructor_accepts_and_defaults
      [of "JNum 120000"
          "\<lparr>opt_shopId = JStr ''shop'', opt_secretKey = JStr ''key'',
            base_host = Some ''http://localhost'', base_path = Some ''/api/'',
            opt_debug = JBool True, opt_timeout = JNum 5000\<rparr>"
          JUndefined "''shop''" "''key''"]
    by (simp add: ctor_defs)
qed

text \<open>
  C10. A configuration object that supplies \<open>base_host\<close>, \<open>base_path\<close>, \<open>debug\<close> or
  \<open>timeout\<close> with a falsy value (the empty string, \<open>false\<close>, \<open>0\<close>, \<open>null\<close>) gets the
  built-in default for that field: the operator \<open>||\<close> does not tell a falsy value
  from an omitted one.
\<close>

theorem falsy_option_gets_default:
  "\<exists>c. YandexCheckout T (ArgObject ob) sk = Inr c
     \<and> (base_host ob = Some [] \<longrightarrow>
          root c = ''https://api.yookassa.ru'' @ str_or (base_path ob) DEFAULT_BASE_PATH)
     \<and> (base_path ob = Some [] \<longrightarrow>
          root c = str_or (base_host ob) DEFAULT_BASE_HOST @ ''/v3/'')
     \<and> (opt_debug ob \<noteq> JUndefined \<and> \<not> truthy (opt_debug ob) \<longrightarrow> debug c = JBool False)
     \<and> (opt_timeout ob \<noteq> JUndefined \<and> \<not> truthy (opt_timeout ob) \<longrightarrow> timeout c = T)"
  by (simp add: ctor_defs)

text \<open>Every optional field supplied and falsy: the client is the one with all defaults.\<close>

theorem falsy_option_gets_default_witness:
  "YandexCheckout (JNum 120000)
     (ArgObject \<lparr>opt_shopId = JStr ''shop'', opt_secretKey = JStr ''key'',
                 base_host = Some [], base_path = Some [],
                 opt_debug = JBool False, opt_timeout = JNum 0\<rparr>) JUndefined
     = Inr \<lparr>shopId = JStr ''shop'', secretKey = JStr ''key'',
            root = ''https://api.yookassa.ru/v3/'', debug = JBool False,
            timeout = JNum 120000\<rparr>"
  using falsy_option_gets_default
    [of "JNum 120000"
        "\<lparr>opt_shopId = JStr ''shop'', opt_secretKey = JStr ''key'',
          base_host = Some [], base_path = Some [],
          opt_debug = JBool False, opt_timeout = JNum 0\<rparr>"
        JUndefined]
  by (simp add: ctor_defs)

section \<open>The facade, for any transport\<close>

lemma createPayment_call:
  "createPayment tr this payload key =
     promise_then (tr this ''POST'' ''payments'' payload key) (Payment this)"
  by (simp add: createPayment_def raw_createPayment_def)

lemma getPayment_call:
  "getPayment tr this paymentId key =
     promise_then (tr this ''GET'' (''payments/'' @ paymentId) (JObj []) key) (Payment this)"
  by (simp add: getPayment_def raw_getPaymentInfo_def)

lemma capturePayment_call:
  "capturePayment tr this paymentId amount key =
     promise_then
       (tr this ''POST'' (''payments/'' @ paymentId @ ''/capture'') (JObj [(''amount'', amount)]) key)
       (Payment this)"
  by (simp add: capturePayment_def raw_capturePayment_def)

lemma createRefund_call:
  "createRefund tr this paymentId amount key =
     promise_then
       (tr this ''POST'' ''refunds''
          (JObj [(''amount'', amount), (''payment_id'', JStr paymentId)]) key)
       (Refund this)"
  by (simp add: createRefund_def raw_createRefund_def)

text \<open>
  C3. \<open>capturePayment(id, amount)\<close> is one call of the transport, with the method
  \<open>POST\<close>, the path \<open>payments/{id}/capture\<close> and the body \<open>{amount}\<close>: an object
  whose only key is \<open>amount\<close>, bound to the caller's amount as it is. The promise
  returned is the transport's, with a resolved value wrapped into a Payment; so the
  requests of \<open>capturePayment\<close> are those of that one call.
\<close>

theorem capturePayment_posts_amount:
  "capturePayment tr this paymentId amount key =
     promise_then
       (tr this ''POST'' (''payments/'' @ paymentId @ ''/capture'') (JObj [(''amount'', amount)]) key)
       (Payment this)
   \<and> sent (capturePayment tr this paymentId amount key) =
       sent (tr this ''POST'' (''payments/'' @ paymentId @ ''/capture'')
              (JObj [(''amount'', amount)]) key)"
  by (simp add: capturePayment_call sent_promise_then)

text \<open>
  A transport that sends nothing and resolves with the arguments it was called with
  shows them: the amount \<open>{value: '2.00', currency: 'RUB'}\<close> sits under the one key
  \<open>amount\<close>.
\<close>

theorem capturePayment_posts_amount_witness:
  "settled
     (capturePayment
        (\<lambda>c m p b k. \<lparr>this_after = c, sent = [],
           settled = Inr (JObj [(''method'', JStr m), (''path'', JStr p),
                                (''body'', b), (''key'', k)])\<rparr>)
        \<lparr>shopId = JStr ''shop'', secretKey = JStr ''key'',
          root = ''https://api.yookassa.ru/v3/'', debug = JBool False, timeout = JNum 120000\<rparr>
        ''215d8da0'' (JObj [(''value'', JStr ''2.00''), (''currency'', JStr ''RUB'')])
        (JStr ''6daac9fa''))
   = Inr (Payment
        \<lparr>shopId = JStr ''shop'', secretKey = JStr ''key'',
          root = ''https://api.yookassa.ru/v3/'', debug = JBool False, timeout = JNum 120000\<rparr>
        (JObj [(''method'', JStr ''POST''), (''path'', JStr ''payments/215d8da0/capture''),
               (''body'', JObj [(''amount'',
                   JObj [(''value'', JStr ''2.00''), (''currency'', JStr ''RUB'')])]),
               (''key'', JStr ''6daac9fa'')]))"
  using capturePayment_posts_amount
    [of "\<lambda>c m p b k. \<lparr>this_after = c, sent = [],
           settled = Inr (JObj [(''method'', JStr m), (''path'', JStr p),
                                (''body'', b), (''key'', k)])\<rparr>"
        "\<lparr>shopId = JStr ''shop'', secretKey = JStr ''key'',
          root = ''https://api.yookassa.ru/v3/'', debug = JBool False, timeout = JNum 120000\<rparr>"
        "''215d8da0''" "JObj [(''value'', JStr ''2.00''), (''currency'', JStr ''RUB'')]"
        "JStr ''6daac9fa''"]
  by (simp add: settled_promise_then)

text \<open>
  C4. \<open>createRefund(paymentId, amount)\<close> is one call of the transport, with the
  method \<open>POST\<close>, the path \<open>refunds\<close> and the body \<open>{amount, payment_id: paymentId}\<close>;
  when that call resolves to the parsed response, \<open>createRefund\<close> resolves to the
  Refund model constructed from it.
\<close>

theorem createRefund_posts_amount_and_payment_id:
  "createRefund tr this paymentId amount key =
     promise_then
       (tr this ''POST'' ''refunds''
          (JObj [(''amount'', amount), (''payment_id'', JStr paymentId)]) key)
       (Refund this)
   \<and> sent (createRefund tr this paymentId amount key) =
       sent (tr this ''POST'' ''refunds''
              (JObj [(''amount'', amount), (''payment_id'', JStr paymentId)]) key)
   \<and> (\<forall>resp.
         settled (tr this ''POST'' ''refunds''
                    (JObj [(''amount'', amount), (''payment_id'', JStr paymentId)]) key) = Inr resp
         \<longrightarrow> settled (createRefund tr this paymentId amount key) = Inr (Refund this resp))"
  by (simp add: createRefund_call sent_promise_then settled_promise_then)

theorem createRefund_posts_amount_and_payment_id_witness:
  "settled
     (createRefund
        (\<lambda>c m p b k. \<lparr>this_after = c, sent = [],
           settled = Inr (JObj [(''method'', JStr m), (''path'', JStr p),
                                (''body'', b), (''key'', k)])\<rparr>)
        \<lparr>shopId = JStr ''shop'', secretKey = JStr ''key'',
          root = ''https://api.yookassa.ru/v3/'', debug = JBool False, timeout = JNum 120000\<rparr>
        ''215d8da0'' (JObj [(''value'', JStr ''1''), (''currency'', JStr ''RUB'')])
        JUndefined)
   = Inr (Refund
        \<lparr>shopId = JStr ''shop'', secretKey = JStr ''key'',
          root = ''https://api.yookassa.ru/v3/'', debug = JBool False, timeout = JNum 120000\<rparr>
        (JObj [(''method'', JStr ''POST''), (''path'', JStr ''refunds''),
               (''body'', JObj [(''amount'',
                   JObj [(''value'', JStr ''1''), (''currency'', JStr ''RUB'')]),
                   (''payment_id'', JStr ''215d8da0'')]),
               (''key'', JUndefined)]))"
  using createRefund_posts_amount_and_payment_id
    [of "\<lambda>c m p b k. \<lparr>this_after = c, sent = [],
           settled = Inr (JObj [(''method'', JStr m), (''path'', JStr p),
                                (''body'', b), (''key'', k)])\<rparr>"
        "\<lparr>shopId = JStr ''shop'', secretKey = JStr ''key'',
          root = ''https://api.yookassa.ru/v3/'', debug = JBool False, timeout = JNum 120000\<rparr>"
        "''215d8da0''" "JObj [(''value'', JStr ''1''), (''currency'', JStr ''RUB'')]"
        JUndefined]
  by (simp add: settled_promise_then)

text \<open>
  C7. \<open>getPayment(id)\<close> is one call of the transport, with the method \<open>GET\<close>, the
  path \<open>payments/{id}\<close> and the empty object as body; when that call resolves to the
  parsed response, \<open>getPayment\<close> resolves to the Payment model constructed from it.
\<close>

theorem getPayment_gets_with_empty_body:
  "getPayment tr this paymentId key =
     promise_then (tr this ''GET'' (''payments/'' @ paymentId) (JObj []) key) (Payment this)
   \<and> sent (getPayment tr this paymentId key) =
       sent (tr this ''GET'' (''payments/'' @ paymentId) (JObj []) key)
   \<and> (\<forall>resp.
         settled (tr this ''GET'' (''payments/'' @ paymentId) (JObj []) key) = Inr resp
         \<longrightarrow> settled (getPayment tr this paymentId key) = Inr (Payment this resp))"
  by (simp add: getPayment_call sent_promise_then settled_promise_then)

theorem getPayment_gets_with_empty_body_witness:
  "settled
     (getPayment
        (\<lambda>c m p b k. \<lparr>this_after = c, sent = [],
           settled = Inr (JObj [(''method'', JStr m), (''path'', JStr p),
                                (''body'', b), (''key'', k)])\<rparr>)
        \<lparr>shopId = JStr ''shop'', secretKey = JStr ''key'',
          root = ''https://api.yookassa.ru/v3/'', debug = JBool False, timeout = JNum 120000\<rparr>
        ''215d8da0'' JUndefined)
   = Inr (Payment
        \<lparr>shopId = JStr ''shop'', secretKey = JStr ''key'',
          root = ''https://api.yookassa.ru/v3/'', debug = JBool False, timeout = JNum 120000\<rparr>
        (JObj [(''method'', JStr ''GET''), (''path'', JStr ''payments/215d8da0''),
               (''body'', JObj []), (''key'', JUndefined)]))"
  using getPayment_gets_with_empty_body
    [of "\<lambda>c m p b k. \<lparr>this_after = c, sent = [],
           settled = Inr (JObj [(''method'', JStr m), (''path'', JStr p),
                                (''body'', b), (''key'', k)])\<rparr>"
        "\<lparr>shopId = JStr ''shop'', secretKey = JStr ''key'',
          root = ''https://api.yookassa.ru/v3/'', debug = JBool False, timeout = JNum 120000\<rparr>"
        "''215d8da0''" JUndefined]
  by (simp add: settled_promise_then)

section \<open>The facade over the transport of the spec\<close>

text \<open>
  C1. \<open>createPayment\<close> issues exactly one request: a \<open>POST\<close> to the base URL followed
  by \<open>payments\<close>, with the payload as body, whatever the idempotence key. When the
  answer has a status from 200 to 299, it resolves to the Payment model constructed
  from the parsed response, each field of which is the response's field of that name.
\<close>

theorem createPayment_posts_once:
  "\<exists>r. sent (createPayment (request http) this payload key) = [r]
      \<and> req_method r = ''POST''
      \<and> req_url r = root this @ ''payments''
      \<and> req_body r = payload
      \<and> (\<forall>status resp.
            http r = Response status resp \<and> 200 \<le> status \<and> status < 300
            \<longrightarrow> settled (createPayment (request http) this payload key)
                   = Inr (Payment this resp)
                \<and> (\<forall>k. model_field (Payment this resp) k = response_field resp k))"
  by (intro exI [of _ "build_request this ''POST'' ''payments'' payload key"])
     (simp add: createPayment_call sent_promise_then sent_request build_request_fields
        settled_promise_then settled_request)

text \<open>The example scenario of the spec (section 8), with the identifier shortened.\<close>

theorem createPayment_posts_once_witness:
  "map (\<lambda>r. (req_method r, req_url r, req_body r))
     (sent (createPayment
        (request (\<lambda>r. Response 200
           (JObj [(''id'', JStr ''215d8da0''), (''status'', JStr ''waiting_for_capture''),
                  (''paid'', JBool True),
                  (''amount'', JObj [(''value'', JStr ''2.00''), (''currency'', JStr ''RUB'')])])))
        \<lparr>shopId = JStr ''shop'', secretKey = JStr ''key'',
          root = ''https://api.yookassa.ru/v3/'', debug = JBool False, timeout = JNum 120000\<rparr>
        (JObj [(''amount'', JObj [(''value'', JStr ''2.00''), (''currency'', JStr ''RUB'')]),
               (''payment_method_data'', JObj [(''type'', JStr ''bank_card'')]),
               (''confirmation'', JObj [(''type'', JStr ''redirect''),
                                        (''return_url'', JStr ''https://example.com'')])])
        (JStr ''6daac9fa-342d-4264-91c5-b5eafd1a0010'')))
   = [(''POST'', ''https://api.yookassa.ru/v3/payments'',
       JObj [(''amount'', JObj [(''value'', JStr ''2.00''), (''currency'', JStr ''RUB'')]),
             (''payment_method_data'', JObj [(''type'', JStr ''bank_card'')]),
             (''confirmation'', JObj [(''type'', JStr ''redirect''),
                                      (''return_url'', JStr ''https://example.com'')])])]
   \<and> (\<exists>m. settled (createPayment
        (request (\<lambda>r. Response 200
           (JObj [(''id'', JStr ''215d8da0''), (''status'', JStr ''waiting_for_capture''),
                  (''paid'', JBool True),
                  (''amount'', JObj [(''value'', JStr ''2.00''), (''currency'', JStr ''RUB'')])])))
        \<lparr>shopId = JStr ''shop'', secretKey = JStr ''key'',
          root = ''https://api.yookassa.ru/v3/'', debug = JBool False, timeout = JNum 120000\<rparr>
        (JObj [(''amount'', JObj [(''value'', JStr ''2.00''), (''currency'', JStr ''RUB'')]),
               (''payment_method_data'', JObj [(''type'', JStr ''bank_card'')]),
               (''confirmation'', JObj [(''type'', JStr ''redirect''),
                                        (''return_url'', JStr ''https://example.com'')])])
        (JStr ''6daac9fa-342d-4264-91c5-b5eafd1a0010'')) = Inr m
      \<and> model_field m ''id'' = JStr ''215d8da0''
      \<and> model_field m ''status'' = JStr ''waiting_for_capture'')"
  (is "map _ (sent (createPayment (request ?http) ?c ?payload ?key)) = _ \<and> _")
  using createPayment_posts_once [of ?http ?c ?payload ?key]
  by (auto simp add: build_request_fields)

lemma rejects_with_api_error:
  "http (build_request c m p b k) = Response status body
   \<Longrightarrow> \<not> (200 \<le> status \<and> status < 300)
   \<Longrightarrow> settled (promise_then (request http c m p b k) f) = Inl (APIError status body)"
  by (simp add: settled_promise_then settled_request)

text \<open>
  C2. For each of the six operations, whatever the transport: when the internal call
  rejects with an error, the public method rejects with that very error, and it
  issues no request beyond those of the internal call (no wrapping, no recovery, no
  retry). With the transport as the spec describes it: a response whose status is not
  from 200 to 299 makes the public method reject with the \<open>APIError\<close> that carries
  the status and the parsed body of that response.
\<close>

theorem rejection_passes_through:
  "(\<forall>e. settled (raw_createPayment tr this payload key) = Inl e
          \<longrightarrow> settled (createPayment tr this payload key) = Inl e)
   \<and> (\<forall>e. settled (raw_getPaymentInfo tr this paymentId key) = Inl e
          \<longrightarrow> settled (getPayment tr this paymentId key) = Inl e)
   \<and> (\<forall>e. settled (raw_capturePayment tr this paymentId amount key) = Inl e
          \<longrightarrow> settled (capturePayment tr this paymentId amount key) = Inl e)
   \<and> (\<forall>e. settled (raw_cancelPayment tr this paymentId key) = Inl e
          \<longrightarrow> settled (cancelPayment tr this paymentId key) = Inl e)
   \<and> (\<forall>e. settled (raw_createRefund tr this paymentId amount key) = Inl e
          \<longrightarrow> settled (createRefund tr this paymentId amount key) = Inl e)
   \<and> (\<forall>e. settled (raw_getRefundInfo tr this refundId key) = Inl e
          \<longrightarrow> settled (getRefund tr this refundId key) = Inl e)
   \<and> sent (createPayment tr this payload key) = sent (raw_createPayment tr this payload key)
   \<and> sent (getPayment tr this paymentId key) = sent (raw_getPaymentInfo tr this paymentId key)
   \<and> sent (capturePayment tr this paymentId amount key)
       = sent (raw_capturePayment tr this paymentId amount key)
   \<and> sent (cancelPayment tr this paymentId key) = sent (raw_cancelPayment tr this paymentId key)
   \<and> sent (createRefund tr this paymentId amount key)
       = sent (raw_createRefund tr this paymentId amount key)
   \<and> sent (getRefund tr this refundId key) = sent (raw_getRefundInfo tr this refundId key)
   \<and> (\<forall>status body.
         http (build_request this ''POST'' ''payments'' payload key) = Response status body
         \<and> \<not> (200 \<le> status \<and> status < 300)
         \<longrightarrow> settled (createPayment (request http) this payload key)
              = Inl (APIError status body))
   \<and> (\<forall>status body.
         http (build_request this ''GET'' (''payments/'' @ paymentId) (JObj []) key)
           = Response status body
         \<and> \<not> (200 \<le> status \<and> status < 300)
         \<longrightarrow> settled (getPayment (request http) this paymentId key)
              = Inl (APIError status body))
   \<and> (\<forall>status body.
         http (build_request this ''POST'' (''payments/'' @ paymentId @ ''/capture'')
                 (JObj [(''amount'', amount)]) key) = Response status body
         \<and> \<not> (200 \<le> status \<and> status < 300)
         \<longrightarrow> settled (capturePayment (request http) this paymentId amount key)
              = Inl (APIError status body))
   \<and> (\<forall>status body.
         http (build_request this ''POST'' (''payments/'' @ paymentId @ ''/cancel'')
                 (JObj []) key) = Response status body
         \<and> \<not> (200 \<le> status \<and> status < 300)
         \<longrightarrow> settled (cancelPayment (request http) this paymentId key)
              = Inl (APIError status body))
   \<and> (\<forall>status body.
         http (build_request this ''POST'' ''refunds''
                 (JObj [(''amount'', amount), (''payment_id'', JStr paymentId)]) key)
           = Response status body
         \<and> \<not> (200 \<le> status \<and> status < 300)
         \<longrightarrow> settled (createRefund (request http) this paymentId amount key)
              = Inl (APIError status body))
   \<and> (\<forall>status body.
         http (build_request this ''GET'' (''refunds/'' @ refundId) (JObj []) key)
           = Response status body
         \<and> \<not> (200 \<le> status \<and> status < 300)
         \<longrightarrow> settled (getRefund (request http) this refundId key)
              = Inl (APIError status body))"
proof -
  have pass: "\<forall>e. settled p = Inl e \<longrightarrow> settled (promise_then p f) = Inl e"
    for p :: "jsval promise" and f :: "jsval \<Rightarrow> model"
    by (simp add: rejected_promise_then)
  have api: "\<forall>status body.
      http (build_request this m p b key) = Response status body
      \<and> \<not> (200 \<le> status \<and> status < 300)
      \<longrightarrow> settled (promise_then (request http this m p b key) f) = Inl (APIError status body)"
    for m p b and f :: "jsval \<Rightarrow> model"
    using rejects_with_api_error by blast
  show ?thesis
    unfolding public_defs
    by (intro conjI pass sent_promise_then) (unfold raw_defs, (rule api)+)
qed

text \<open>
  A payment that does not exist: the remote API's 404 is the \<open>APIError\<close> of
  \<open>getPayment\<close>. A transport that times out: its error is the one of \<open>createRefund\<close>.
\<close>

theorem rejection_passes_through_witness:
  "settled
     (getPayment
        (request (\<lambda>r. Response 404 (JObj [(''type'', JStr ''error''),
                                           (''code'', JStr ''not_found'')])))
        \<lparr>shopId = JStr ''shop'', secretKey = JStr ''key'',
          root = ''https://api.yookassa.ru/v3/'', debug = JBool False, timeout = JNum 120000\<rparr>
        ''missing'' JUndefined)
     = Inl (APIError 404 (JObj [(''type'', JStr ''error''), (''code'', JStr ''not_found'')]))
   \<and> settled
       (createRefund
          (\<lambda>c m p b k. \<lparr>this_after = c, sent = [], settled = Inl (TransportError ''ETIMEDOUT'')\<rparr>)
          \<lparr>shopId = JStr ''shop'', secretKey = JStr ''key'',
            root = ''https://api.yookassa.ru/v3/'', debug = JBool False, timeout = JNum 120000\<rparr>
          ''215d8da0'' (JObj [(''value'', JStr ''1''), (''currency'', JStr ''RUB'')]) JUndefined)
     = Inl (TransportError ''ETIMEDOUT'')"
  (is "settled (getPayment (request ?http) ?c ?missing ?key) = _
       \<and> settled (createRefund ?tr ?c ?id ?amount ?key) = _")
proof
  show "settled (getPayment (request ?http) ?c ?missing ?key)
      = Inl (APIError 404 (JObj [(''type'', JStr ''error''), (''code'', JStr ''not_found'')]))"
    using rejection_passes_through [of _ ?c _ ?key ?missing _ _ ?http]
    by simp
  show "settled (createRefund ?tr ?c ?id ?amount ?key) = Inl (TransportError ''ETIMEDOUT'')"
    using rejection_passes_through [of ?tr ?c _ ?key ?id ?amount]
    by (simp add: raw_createRefund_def)
qed

text \<open>
  C5. Each of the six operations hands its idempotence key to the transport as it
  received it. With the transport as the spec describes it, the one request carries
  the header \<open>Idempotence-Key\<close> with exactly that key when a key is supplied, and has
  no such header when the key is omitted: the client generates none.
\<close>

theorem idempotence_key_forwarded:
  "raw_createPayment tr this payload key = tr this ''POST'' ''payments'' payload key
   \<and> raw_getPaymentInfo tr this paymentId key
       = tr this ''GET'' (''payments/'' @ paymentId) (JObj []) key
   \<and> raw_capturePayment tr this paymentId amount key
       = tr this ''POST'' (''payments/'' @ paymentId @ ''/capture'') (JObj [(''amount'', amount)]) key
   \<and> raw_cancelPayment tr this paymentId key
       = tr this ''POST'' (''payments/'' @ paymentId @ ''/cancel'') (JObj []) key
   \<and> raw_createRefund tr this paymentId amount key
       = tr this ''POST'' ''refunds''
           (JObj [(''amount'', amount), (''payment_id'', JStr paymentId)]) key
   \<and> raw_getRefundInfo tr this refundId key
       = tr this ''GET'' (''refunds/'' @ refundId) (JObj []) key
   \<and> (\<exists>r. sent (createPayment (request http) this payload key) = [r]
          \<and> map_of (req_headers r) ''Idempotence-Key''
              = (if key = JUndefined then None else Some key))
   \<and> (\<exists>r. sent (getPayment (request http) this paymentId key) = [r]
          \<and> map_of (req_headers r) ''Idempotence-Key''
              = (if key = JUndefined then None else Some key))
   \<and> (\<exists>r. sent (capturePayment (request http) this paymentId amount key) = [r]
          \<and> map_of (req_headers r) ''Idempotence-Key''
              = (if key = JUndefined then None else Some key))
   \<and> (\<exists>r. sent (cancelPayment (request http) this paymentId key) = [r]
          \<and> map_of (req_headers r) ''Idempotence-Key''
              = (if key = JUndefined then None else Some key))
   \<and> (\<exists>r. sent (createRefund (request http) this paymentId amount key) = [r]
          \<and> map_of (req_headers r) ''Idempotence-Key''
              = (if key = JUndefined then None else Some key))
   \<and> (\<exists>r. sent (getRefund (request http) this refundId key) = [r]
          \<and> map_of (req_headers r) ''Idempotence-Key''
              = (if key = JUndefined then None else Some key))"
proof -
  have header: "\<exists>r. sent (promise_then (request http this m p b key) f) = [r]
      \<and> map_of (req_headers r) ''Idempotence-Key'' = (if key = JUndefined then None else Some key)"
    for m p b and f :: "jsval \<Rightarrow> model"
    by (simp add: sent_promise_then sent_request idempotence_header)
  show ?thesis
    unfolding public_defs raw_defs
    by (intro conjI refl header)
qed

text \<open>The same refund created with a key and without one.\<close>

theorem idempotence_key_forwarded_witness:
  "map req_headers
     (sent (createRefund (request (\<lambda>r. NetworkFailure ''ECONNRESET''))
        \<lparr>shopId = JStr ''shop'', secretKey = JStr ''key'',
          root = ''https://api.yookassa.ru/v3/'', debug = JBool False, timeout = JNum 120000\<rparr>
        ''215d8da0'' (JObj [(''value'', JStr ''1''), (''currency'', JStr ''RUB'')])
        (JStr ''6daac9fa-342d-4264-91c5-b5eafd1a0010'')))
     = [[(''Content-Type'', JStr ''application/json''),
         (''Idempotence-Key'', JStr ''6daac9fa-342d-4264-91c5-b5eafd1a0010'')]]
   \<and> map req_headers
     (sent (createRefund (request (\<lambda>r. NetworkFailure ''ECONNRESET''))
        \<lparr>shopId = JStr ''shop'', secretKey = JStr ''key'',
          root = ''https://api.yookassa.ru/v3/'', debug = JBool False, timeout = JNum 120000\<rparr>
        ''215d8da0'' (JObj [(''value'', JStr ''1''), (''currency'', JStr ''RUB'')])
        JUndefined))
     = [[(''Content-Type'', JStr ''application/json'')]]"
  (is "map req_headers (sent (createRefund ?tr ?c ?id ?amount ?key)) = _ \<and> _")
  using idempotence_key_forwarded [of ?tr ?c _ ?key ?id ?amount]
    idempotence_key_forwarded [of ?tr ?c _ JUndefined ?id ?amount]
  by (simp add: createRefund_def sent_promise_then sent_request build_request_def)

text \<open>
  C9. With the transport and the result models as the spec describes them, each of
  the six operations leaves the client instance, and so its shop id, secret key, base
  URL, debug flag and timeout, exactly as it found it: whatever the remote API
  answers, hence on success and on failure alike.
\<close>

theorem configuration_unchanged:
  "this_after (createPayment (request http) this payload key) = this
   \<and> this_after (getPayment (request http) this paymentId key) = this
   \<and> this_after (capturePayment (request http) this paymentId amount key) = this
   \<and> this_after (cancelPayment (request http) this paymentId key) = this
   \<and> this_after (createRefund (request http) this paymentId amount key) = this
   \<and> this_after (getRefund (request http) this refundId key) = this"
  unfolding public_defs raw_defs
  by (simp add: this_after_promise_then this_after_request)

text \<open>A client as the constructor builds it, after a payment that the remote API refuses.\<close>

theorem configuration_unchanged_witness:
  "map_sum id
     (\<lambda>c. this_after (createPayment (request (\<lambda>r. Response 400 JNull)) c (JObj []) JUndefined))
     (YandexCheckout (JNum 120000) (ArgString ''shop'') (JStr ''key''))
   = Inr \<lparr>shopId = JStr ''shop'', secretKey = JStr ''key'',
          root = ''https://api.yookassa.ru/v3/'', debug = JBool False, timeout = JNum 120000\<rparr>"
  by (simp add: configuration_unchanged ctor_defs)

section \<open>No validation before dispatch\<close>

text \<open>
  C8. With \<open>null\<close> as first argument the constructor throws instead of building a
  client: \<open>typeof null\<close> is \<open>'object'\<close>, so the test of line 10 takes \<open>null\<close> for the
  configuration object and line 19 reads \<open>options.shopId\<close> of \<open>null\<close>. The same call
  with \<open>undefined\<close> in that place builds the client, the missing shop id stored as
  \<open>undefined\<close>.
\<close>

theorem constructor_throws_on_null:
  "YandexCheckout (JNum 120000) ArgNull (JStr ''secret'') = Inl TypeError
   \<and> YandexCheckout (JNum 120000) ArgUndefined (JStr ''secret'')
     = Inr \<lparr>shopId = JUndefined, secretKey = JStr ''secret'',
            root = ''https://api.yookassa.ru/v3/'', debug = JBool False, timeout = JNum 120000\<rparr>"
  by (simp add: ctor_defs)

text \<open>
  Everywhere else the constructor and the facade do validate nothing. For every first
  argument other than \<open>null\<close> the constructor returns a client, a missing shop id or
  secret key stored as \<open>undefined\<close>. No operation inspects what it is given: whatever
  the payload or the amount, a public method rejects only when its one call of the
  transport rejects, and with that error.
\<close>

lemma no_validation_elsewhere:
  "(shopIdArg \<noteq> ArgNull \<longrightarrow> (\<exists>c. YandexCheckout T shopIdArg secretKeyArg = Inr c))
   \<and> (\<exists>c. YandexCheckout T ArgUndefined JUndefined = Inr c
          \<and> shopId c = JUndefined \<and> secretKey c = JUndefined)
   \<and> (\<exists>c. YandexCheckout T (ArgObject ob) secretKeyArg = Inr c
          \<and> shopId c = opt_shopId ob \<and> secretKey c = opt_secretKey ob)
   \<and> (\<forall>e. settled (createPayment tr this payload key) = Inl e
          \<longrightarrow> settled (tr this ''POST'' ''payments'' payload key) = Inl e)
   \<and> (\<forall>e. settled (getPayment tr this paymentId key) = Inl e
          \<longrightarrow> settled (tr this ''GET'' (''payments/'' @ paymentId) (JObj []) key) = Inl e)
   \<and> (\<forall>e. settled (capturePayment tr this paymentId amount key) = Inl e
          \<longrightarrow> settled (tr this ''POST'' (''payments/'' @ paymentId @ ''/capture'')
                        (JObj [(''amount'', amount)]) key) = Inl e)
   \<and> (\<forall>e. settled (cancelPayment tr this paymentId key) = Inl e
          \<longrightarrow> settled (tr this ''POST'' (''payments/'' @ paymentId @ ''/cancel'')
                        (JObj []) key) = Inl e)
   \<and> (\<forall>e. settled (createRefund tr this paymentId amount key) = Inl e
          \<longrightarrow> settled (tr this ''POST'' ''refunds''
                        (JObj [(''amount'', amount), (''payment_id'', JStr paymentId)]) key) = Inl e)
   \<and> (\<forall>e. settled (getRefund tr this refundId key) = Inl e
          \<longrightarrow> settled (tr this ''GET'' (''refunds/'' @ refundId) (JObj []) key) = Inl e)"
proof -
  have accepts: "shopIdArg \<noteq> ArgNull \<longrightarrow> (\<exists>c. YandexCheckout T shopIdArg secretKeyArg = Inr c)"
    by (cases shopIdArg) (simp_all add: YandexCheckout_def)
  have positional: "\<exists>c. YandexCheckout T ArgUndefined JUndefined = Inr c
      \<and> shopId c = JUndefined \<and> secretKey c = JUndefined"
    by (simp add: YandexCheckout_def)
  have object: "\<exists>c. YandexCheckout T (ArgObject ob) secretKeyArg = Inr c
      \<and> shopId c = opt_shopId ob \<and> secretKey c = opt_secretKey ob"
    by (simp add: YandexCheckout_def)
  have only: "\<forall>e. settled (promise_then p f) = Inl e \<longrightarrow> settled p = Inl e"
    for p :: "jsval promise" and f :: "jsval \<Rightarrow> model"
    using promise_then_rejected_only by blast
  show ?thesis
    unfolding public_defs raw_defs
    by (intro conjI accepts positional object only)
qed

end
